theory Spec2Isabelle
  imports Main
begin

section \<open>Values of the host language\<close>

text \<open>
  The repository is one file, \<^verbatim>\<open>src/HooksCheetSheet.tsx\<close>: a catalogue of seventeen
  React function components in fifteen numbered examples, one example per hook. A
  component is a function that calls hooks and returns a JSX element. The embedding
  has three layers: the values the components compute with, a small model of the hook
  runtime the components call into, and the components themselves, each translated
  line by line.

  Values whose shape is only known at run time (the state that holds a fetch result,
  the \<open>current\<close> field of a ref, data unwrapped from a promise) are values of
  \<open>jsval\<close>; \<open>Host\<close> is an object supplied by the platform (a fetch \<open>Response\<close>, a
  DOM node) with its class name and its data properties.
\<close>

subsection \<open>Numbers\<close>

text \<open>
  A JavaScript number is an IEEE 754 double. The numbers of the file are the constants
  \<open>0\<close>, \<open>1\<close> and \<open>2\<close> and the results of \<open>+\<close>, \<open>-\<close> and \<open>*\<close> on numbers, so
  \<open>number\<close> holds the doubles with an integer value, the two infinities and NaN
  (fractions do not arise, and the two zeros are one value). \<open>Finite n\<close> is the
  double of value \<open>n\<close>; a double has a significand of 53 bits, so every integer of
  magnitude up to \<open>2^53\<close> is one, and above that only the multiples of a power of two.
  The constants are doubles and every operation returns one.

  The result of an operation is the double nearest to the exact result, a tie going to
  the even significand, and an infinity when that nearest value reaches \<open>2^1024\<close>.
  \<open>bit_length x\<close> is the number of binary digits of \<open>x\<close>; \<open>nearest_double x\<close>
  keeps the leading 53 of them and rounds on the rest.
\<close>

datatype number =
    Finite int
  | PosInfinity
  | NegInfinity
  | NaN

fun bit_length :: "nat \<Rightarrow> nat" where
  "bit_length n = (if n = 0 then 0 else Suc (bit_length (n div 2)))"

definition nearest_double :: "nat \<Rightarrow> nat" where
  "nearest_double x =
     (let e = bit_length x - 53; q = x div 2 ^ e; r = x mod 2 ^ e in
      if 2 * r < 2 ^ e \<or> (2 * r = 2 ^ e \<and> even q) then q * 2 ^ e else (q + 1) * 2 ^ e)"

definition to_double :: "int \<Rightarrow> number" where
  "to_double x =
     (let m = nearest_double (nat \<bar>x\<bar>) in
      if 2 ^ 1024 \<le> m then (if x < 0 then NegInfinity else PosInfinity)
      else Finite (if x < 0 then - int m else int m))"

fun js_neg :: "number \<Rightarrow> number" where
  "js_neg (Finite a) = Finite (- a)"
| "js_neg PosInfinity = NegInfinity"
| "js_neg NegInfinity = PosInfinity"
| "js_neg NaN = NaN"

fun js_add :: "number \<Rightarrow> number \<Rightarrow> number" where
  "js_add (Finite a) (Finite b) = to_double (a + b)"
| "js_add NaN y = NaN"
| "js_add x NaN = NaN"
| "js_add PosInfinity NegInfinity = NaN"
| "js_add NegInfinity PosInfinity = NaN"
| "js_add PosInfinity y = PosInfinity"
| "js_add x PosInfinity = PosInfinity"
| "js_add NegInfinity y = NegInfinity"
| "js_add x NegInfinity = NegInfinity"

definition js_sub :: "number \<Rightarrow> number \<Rightarrow> number" where
  "js_sub x y = js_add x (js_neg y)"

fun js_sign :: "number \<Rightarrow> int" where
  "js_sign (Finite a) = sgn a"
| "js_sign PosInfinity = 1"
| "js_sign NegInfinity = - 1"
| "js_sign NaN = 0"

text \<open>
  A product with an infinity is NaN when the other factor is zero or NaN, and the
  infinity of the product's sign otherwise.
\<close>

fun js_mul :: "number \<Rightarrow> number \<Rightarrow> number" where
  "js_mul (Finite a) (Finite b) = to_double (a * b)"
| "js_mul x y =
     (if js_sign x * js_sign y = 0 then NaN
      else if 0 < js_sign x * js_sign y then PosInfinity
      else NegInfinity)"

subsection \<open>Values\<close>

datatype jsval =
    Undefined
  | Null
  | Bool bool
  | Num number
  | Str string
  | Arr "jsval list"
  | Obj "(string \<times> jsval) list"
  | Host string "(string \<times> jsval) list"

datatype error =
    TypeError
  | Suspended
  | HookOrder

text \<open>
  \<open>get_prop v k\<close> is the property read \<open>v.k\<close> for a data property \<open>k\<close>: reading
  a property of \<open>undefined\<close> or \<open>null\<close> throws a TypeError, a property an object does not
  have reads as \<open>undefined\<close>. Functions are not values of \<open>jsval\<close>, so inherited
  methods are not read through \<open>get_prop\<close>; the one method call of the file,
  \<open>.map(f)\<close>, is \<open>js_map\<close>.
\<close>

fun get_prop :: "jsval \<Rightarrow> string \<Rightarrow> error + jsval" where
  "get_prop Undefined k = Inl TypeError"
| "get_prop Null k = Inl TypeError"
| "get_prop (Obj ps) k = Inr (case map_of ps k of Some v \<Rightarrow> v | None \<Rightarrow> Undefined)"
| "get_prop (Host c ps) k = Inr (case map_of ps k of Some v \<Rightarrow> v | None \<Rightarrow> Undefined)"
| "get_prop (Arr xs) k = Inr (if k = ''length'' then Num (Finite (int (length xs))) else Undefined)"
| "get_prop (Str s) k = Inr (if k = ''length'' then Num (Finite (int (length s))) else Undefined)"
| "get_prop (Bool b) k = Inr Undefined"
| "get_prop (Num n) k = Inr Undefined"

fun sequence :: "(error + 'a) list \<Rightarrow> error + 'a list" where
  "sequence [] = Inr []"
| "sequence (x # xs) =
     (case x of
        Inl e \<Rightarrow> Inl e
      | Inr v \<Rightarrow> (case sequence xs of Inl e \<Rightarrow> Inl e | Inr vs \<Rightarrow> Inr (v # vs)))"

text \<open>
  \<open>js_map v f\<close> is \<open>v.map(f)\<close>: on \<open>undefined\<close> and \<open>null\<close> the read of \<open>map\<close>
  throws; on an array \<open>f\<close> runs on each item in order; any other value of \<open>jsval\<close> has
  no callable \<open>map\<close>, and the call throws.
\<close>

fun js_map :: "jsval \<Rightarrow> (jsval \<Rightarrow> error + 'a) \<Rightarrow> error + 'a list" where
  "js_map (Arr xs) f = sequence (map f xs)"
| "js_map v f = Inl TypeError"

fun truthy :: "jsval \<Rightarrow> bool" where
  "truthy Undefined = False"
| "truthy Null = False"
| "truthy (Bool b) = b"
| "truthy (Num n) = (n \<noteq> Finite 0 \<and> n \<noteq> NaN)"
| "truthy (Str s) = (s \<noteq> [])"
| "truthy v = True"

section \<open>The reducer of the useReducer example\<close>

text \<open>
  The state of the reducer is an object with the one field \<open>count\<close>, a number; an
  action is an object with the field \<open>type\<close>, of any value. The switch compares
  \<open>action.type\<close> with two string literals by strict equality and falls through to
  \<open>default\<close>.
\<close>

record state =
  count :: number

record action =
  type :: jsval

definition reducer :: "state \<Rightarrow> action \<Rightarrow> state" where
  "reducer state action =
     (if type action = Str ''increment'' then \<lparr>count = js_add (count state) (Finite 1)\<rparr>
      else if type action = Str ''decrement'' then \<lparr>count = js_sub (count state) (Finite 1)\<rparr>
      else state)"

section \<open>The hook runtime\<close>

text \<open>
  Modelled from the spec: the hooks belong to the host framework, React, whose code is
  not in the repository. The spec names what each hook is for (a local state cell with
  re-render on write, state transition through an action-dispatch function, side
  effects scheduled after render and optionally cleaned up, a handle that persists
  across renders, memoization of a value or a function until its declared dependencies
  change, an ambient value propagated to descendants, low-priority update hints,
  developer-tool labels and identifiers, unwrapping of a promise); the definitions of
  this section spell that out as React documents it. The components, the reducer and
  the functions they pass to hooks are translated from the source.

  React keeps, for every mounted component, a list of hook slots; each hook call of a
  render consumes the slot at its position in the list of the previous render and
  writes the slot of this render. A render is a computation over \<open>rstate\<close>:
  \<^item> \<open>prev\<close>: the slots of the previous render not yet consumed, \<open>None\<close> on mount;
  \<^item> \<open>slots\<close>: the slots written so far by this render;
  \<^item> \<open>trace\<close>: the hooks called so far, in call order;
  \<^item> \<open>effects\<close>: the effect functions registered so far;
  \<^item> \<open>acts\<close>: what the render did besides computing (console output);
  \<^item> \<open>env\<close>: the context values provided above the component, innermost first;
  \<^item> \<open>used\<close>: the names of the module-level declarations of the file whose value
    the render has read or called so far.
  A render ends with a value or with a thrown \<open>error\<close>; the state survives both.
\<close>

datatype hook =
    H_useState
  | H_useReducer
  | H_useSyncExternalStore
  | H_useEffect
  | H_useLayoutEffect
  | H_useInsertionEffect
  | H_useRef
  | H_useMemo
  | H_useCallback
  | H_useContext
  | H_useTransition
  | H_useDeferredValue
  | H_useDebugValue
  | H_useId
  | H_use

text \<open>
  What running a function does to the world: it replaces the state in a slot
  (\<open>setCount(v)\<close> is \<open>SetSlot i (\<lambda>_. v)\<close>, \<open>dispatch(a)\<close> is
  \<open>SetSlot i (\<lambda>s. reducer s a)\<close>) or it writes to the console. The body of a
  function is the list of the acts of its statements.
\<close>

datatype 's act =
    SetSlot nat "'s \<Rightarrow> 's"
  | ConsoleLog string

text \<open>
  The body of an async function: it returns, awaits \<open>fetch(url)\<close> and goes on with the
  response, awaits \<open>res.json()\<close> and goes on with the parsed data, or performs an act
  and goes on.
\<close>

datatype 's async =
    Return jsval
  | AwaitFetch string "jsval \<Rightarrow> 's async"
  | AwaitJson jsval "jsval \<Rightarrow> 's async"
  | Perform "'s act" "'s async"

text \<open>
  A function value without parameters: a plain function with what it does and the
  function it returns (if it returns one), or an async function with its body. Calling
  a plain function returns \<open>undefined\<close> or the returned function; calling an async
  function returns a promise, which is pending until its body has run.
\<close>

datatype 's fn =
    Fn "'s act list" "'s act list option"
  | AsyncFn "'s async"

datatype 's promise =
    Pending "'s async"
  | Fulfilled jsval
  | Rejected

datatype 's retval =
    RetUndefined
  | RetFunction "'s act list"
  | RetPromise "'s promise"

fun call_fn :: "'s fn \<Rightarrow> 's retval" where
  "call_fn (Fn as None) = RetUndefined"
| "call_fn (Fn as (Some cleanup)) = RetFunction cleanup"
| "call_fn (AsyncFn body) = RetPromise (Pending body)"

text \<open>
  React calls an effect function after the render and keeps what it returns as the
  clean-up of the effect: it expects \<open>undefined\<close> or a function.
\<close>

fun is_cleanup :: "'s retval \<Rightarrow> bool" where
  "is_cleanup RetUndefined = True"
| "is_cleanup (RetFunction c) = True"
| "is_cleanup (RetPromise p) = False"

text \<open>
  The world an async body runs against: what \<open>fetch(url)\<close> resolves with and what
  \<open>res.json()\<close> resolves with (\<open>None\<close>: the promise rejects). \<open>run_async\<close> runs a
  body to its end: the requests it made, the acts it performed, and the value its
  promise resolves with (\<open>None\<close> when an awaited promise rejected).
\<close>

record world =
  fetch_result :: "string \<Rightarrow> jsval option"
  json_result :: "jsval \<Rightarrow> jsval option"

datatype request =
    FetchReq string
  | JsonReq jsval

record 's ran =
  requests :: "request list"
  performed :: "'s act list"
  resolved :: "jsval option"

primrec run_async :: "world \<Rightarrow> 's async \<Rightarrow> 's ran" where
  "run_async w (Return v) = \<lparr>requests = [], performed = [], resolved = Some v\<rparr>"
| "run_async w (AwaitFetch url k) =
     (case fetch_result w url of
        None \<Rightarrow> \<lparr>requests = [FetchReq url], performed = [], resolved = None\<rparr>
      | Some res \<Rightarrow>
          (let r = run_async w (k res) in r\<lparr>requests := FetchReq url # requests r\<rparr>))"
| "run_async w (AwaitJson res k) =
     (case json_result w res of
        None \<Rightarrow> \<lparr>requests = [JsonReq res], performed = [], resolved = None\<rparr>
      | Some d \<Rightarrow>
          (let r = run_async w (k d) in r\<lparr>requests := JsonReq res # requests r\<rparr>))"
| "run_async w (Perform a k) =
     (let r = run_async w k in r\<lparr>performed := a # performed r\<rparr>)"

text \<open>
  Elements. A JSX element is a host tag with its attributes and children, a piece of
  text, an expression child \<open>{e}\<close> with the value of \<open>e\<close>, an array of elements as one
  child, a component of this file rendered as a child, or a context provider around
  its children. An attribute is a string literal, a value, a function (run with the
  event it is called with) or a ref (the slot of the ref object). The one event field
  the file reads is \<open>e.target.value\<close>.
\<close>

record event =
  target_value :: string

datatype 's attr =
    Lit string
  | Val jsval
  | Handler "event \<Rightarrow> 's act list"
  | RefTo nat

record context_object =
  ctx_id :: string
  default_value :: jsval

datatype comp =
    C_ChildComponent
  | C_ChildComponentContext

datatype 's element =
    Tag string "(string \<times> 's attr) list" "'s element list"
  | Text string
  | Expr jsval
  | Items "'s element list"
  | Child comp "(string \<times> 's attr) list"
  | Provider context_object jsval "'s element list"

datatype phase =
    Passive
  | Layout
  | Insertion

record 's effect =
  phase :: phase
  create :: "'s fn"
  deps :: "'s list option"
  fires :: bool

datatype 's slot =
    StateSlot 's
  | RefSlot 's
  | MemoSlot 's "'s list"
  | CallbackSlot "event \<Rightarrow> 's act list" "'s list"
  | EffectSlot "'s list option"
  | TransitionSlot bool
  | DeferredSlot 's
  | IdSlot nat

record 's rstate =
  prev :: "'s slot list option"
  slots :: "'s slot list"
  trace :: "hook list"
  effects :: "'s effect list"
  acts :: "'s act list"
  env :: "(string \<times> jsval) list"
  used :: "string list"

type_synonym ('s, 'a) render = "'s rstate \<Rightarrow> (error + 'a) \<times> 's rstate"

definition rreturn :: "'a \<Rightarrow> ('s, 'a) render" where
  "rreturn x = (\<lambda>r. (Inr x, r))"

definition throw :: "error \<Rightarrow> ('s, 'a) render" where
  "throw e = (\<lambda>r. (Inl e, r))"

definition rbind :: "('s, 'a) render \<Rightarrow> ('a \<Rightarrow> ('s, 'b) render) \<Rightarrow> ('s, 'b) render" where
  "rbind m f = (\<lambda>r. case m r of (Inl e, r') \<Rightarrow> (Inl e, r') | (Inr x, r') \<Rightarrow> f x r')"

definition lift :: "error + 'a \<Rightarrow> ('s, 'a) render" where
  "lift x = (\<lambda>r. (x, r))"

definition perform :: "'s act \<Rightarrow> ('s, unit) render" where
  "perform a = (\<lambda>r. (Inr (), r\<lparr>acts := acts r @ [a]\<rparr>))"

definition console_log :: "string \<Rightarrow> ('s, unit) render" where
  "console_log s = perform (ConsoleLog s)"

text \<open>
  \<open>take_slot h\<close> records the call of hook \<open>h\<close> and hands it the slot of the previous
  render at this position: \<open>None\<close> on mount. On an update the slot must be there; a hook
  that finds none, or one of another hook, is a violation of the rules of hooks.
\<close>

definition take_slot :: "hook \<Rightarrow> ('s, 's slot option) render" where
  "take_slot h = (\<lambda>r.
     let r1 = r\<lparr>trace := trace r @ [h]\<rparr> in
     case prev r of
       None \<Rightarrow> (Inr None, r1)
     | Some [] \<Rightarrow> (Inl HookOrder, r1)
     | Some (p # ps) \<Rightarrow> (Inr (Some p), r1\<lparr>prev := Some ps\<rparr>))"

definition put_slot :: "'s slot \<Rightarrow> ('s, unit) render" where
  "put_slot s = (\<lambda>r. (Inr (), r\<lparr>slots := slots r @ [s]\<rparr>))"

definition slot_index :: "('s, nat) render" where
  "slot_index = (\<lambda>r. (Inr (length (slots r)), r))"

definition note_hook :: "hook \<Rightarrow> ('s, unit) render" where
  "note_hook h = (\<lambda>r. (Inr (), r\<lparr>trace := trace r @ [h]\<rparr>))"

definition set_state :: "nat \<Rightarrow> 's \<Rightarrow> 's act" where
  "set_state i v = SetSlot i (\<lambda>_. v)"

definition dispatch_to :: "nat \<Rightarrow> ('s \<Rightarrow> 'a \<Rightarrow> 's) \<Rightarrow> 'a \<Rightarrow> 's act" where
  "dispatch_to i red a = SetSlot i (\<lambda>s. red s a)"

text \<open>
  \<open>useState(init)\<close>: the state is \<open>init\<close> on mount and the stored state afterwards; the
  setter replaces the state in this hook's slot.
\<close>

definition useState :: "'s \<Rightarrow> ('s, 's \<times> ('s \<Rightarrow> 's act)) render" where
  "useState init =
     rbind slot_index (\<lambda>i.
     rbind (take_slot H_useState) (\<lambda>p.
       case p of
         None \<Rightarrow> rbind (put_slot (StateSlot init)) (\<lambda>_. rreturn (init, set_state i))
       | Some (StateSlot v) \<Rightarrow> rbind (put_slot (StateSlot v)) (\<lambda>_. rreturn (v, set_state i))
       | Some _ \<Rightarrow> throw HookOrder))"

text \<open>
  \<open>useReducer(reducer, init)\<close>: as \<open>useState\<close>, but the function it returns takes an
  action, and the next state is the reducer's result on the stored state and the action.
\<close>

definition useReducer ::
  "('s \<Rightarrow> 'a \<Rightarrow> 's) \<Rightarrow> 's \<Rightarrow> ('s, 's \<times> ('a \<Rightarrow> 's act)) render" where
  "useReducer red init =
     rbind slot_index (\<lambda>i.
     rbind (take_slot H_useReducer) (\<lambda>p.
       case p of
         None \<Rightarrow> rbind (put_slot (StateSlot init)) (\<lambda>_. rreturn (init, dispatch_to i red))
       | Some (StateSlot v) \<Rightarrow> rbind (put_slot (StateSlot v)) (\<lambda>_. rreturn (v, dispatch_to i red))
       | Some _ \<Rightarrow> throw HookOrder))"

text \<open>
  \<open>useRef(init)\<close>: an object with the field \<open>current\<close>, \<open>init\<close> on mount, that lives
  in the slot across renders.
\<close>

record 's ref =
  ref_slot :: nat
  current :: 's

definition useRef :: "'s \<Rightarrow> ('s, 's ref) render" where
  "useRef init =
     rbind slot_index (\<lambda>i.
     rbind (take_slot H_useRef) (\<lambda>p.
       case p of
         None \<Rightarrow> rbind (put_slot (RefSlot init)) (\<lambda>_. rreturn \<lparr>ref_slot = i, current = init\<rparr>)
       | Some (RefSlot v) \<Rightarrow> rbind (put_slot (RefSlot v)) (\<lambda>_. rreturn \<lparr>ref_slot = i, current = v\<rparr>)
       | Some _ \<Rightarrow> throw HookOrder))"

text \<open>
  \<open>useMemo(compute, deps)\<close>: on mount, and on an update whose dependencies differ from
  the stored ones, \<open>compute\<close> runs and its result is stored with the dependencies;
  otherwise the stored result is returned and \<open>compute\<close> does not run.
\<close>

definition useMemo :: "('s, 's) render \<Rightarrow> 's list \<Rightarrow> ('s, 's) render" where
  "useMemo compute ds =
     rbind (take_slot H_useMemo) (\<lambda>p.
       case p of
         None \<Rightarrow> rbind compute (\<lambda>v. rbind (put_slot (MemoSlot v ds)) (\<lambda>_. rreturn v))
       | Some (MemoSlot v old) \<Rightarrow>
           if old = ds then rbind (put_slot (MemoSlot v old)) (\<lambda>_. rreturn v)
           else rbind compute (\<lambda>v'. rbind (put_slot (MemoSlot v' ds)) (\<lambda>_. rreturn v'))
       | Some _ \<Rightarrow> throw HookOrder)"

text \<open>
  \<open>useCallback(f, deps)\<close>: the stored function while the dependencies are the stored
  ones, \<open>f\<close> otherwise.
\<close>

definition useCallback ::
  "(event \<Rightarrow> 's act list) \<Rightarrow> 's list \<Rightarrow> ('s, event \<Rightarrow> 's act list) render" where
  "useCallback f ds =
     rbind (take_slot H_useCallback) (\<lambda>p.
       case p of
         None \<Rightarrow> rbind (put_slot (CallbackSlot f ds)) (\<lambda>_. rreturn f)
       | Some (CallbackSlot g old) \<Rightarrow>
           if old = ds then rbind (put_slot (CallbackSlot g old)) (\<lambda>_. rreturn g)
           else rbind (put_slot (CallbackSlot f ds)) (\<lambda>_. rreturn f)
       | Some _ \<Rightarrow> throw HookOrder)"

text \<open>
  The three effect hooks register the function they are given, with its dependency
  array. The effect fires after this render on mount, when no dependency array is given,
  and when the dependencies differ from the stored ones.
\<close>

definition deps_changed :: "'s list option \<Rightarrow> 's list option \<Rightarrow> bool" where
  "deps_changed old new =
     (case old of
        None \<Rightarrow> True
      | Some a \<Rightarrow> (case new of None \<Rightarrow> True | Some b \<Rightarrow> a \<noteq> b))"

definition register :: "'s effect \<Rightarrow> ('s, unit) render" where
  "register e = (\<lambda>r. (Inr (), r\<lparr>effects := effects r @ [e]\<rparr>))"

definition effect_hook :: "hook \<Rightarrow> phase \<Rightarrow> 's fn \<Rightarrow> 's list option \<Rightarrow> ('s, unit) render" where
  "effect_hook h ph f ds =
     rbind (take_slot h) (\<lambda>p.
       case p of
         None \<Rightarrow>
           rbind (put_slot (EffectSlot ds)) (\<lambda>_.
           register \<lparr>phase = ph, create = f, deps = ds, fires = True\<rparr>)
       | Some (EffectSlot old) \<Rightarrow>
           rbind (put_slot (EffectSlot ds)) (\<lambda>_.
           register \<lparr>phase = ph, create = f, deps = ds, fires = deps_changed old ds\<rparr>)
       | Some _ \<Rightarrow> throw HookOrder)"

definition useEffect :: "'s fn \<Rightarrow> 's list option \<Rightarrow> ('s, unit) render" where
  "useEffect = effect_hook H_useEffect Passive"

definition useLayoutEffect :: "'s fn \<Rightarrow> 's list option \<Rightarrow> ('s, unit) render" where
  "useLayoutEffect = effect_hook H_useLayoutEffect Layout"

definition useInsertionEffect :: "'s fn \<Rightarrow> 's list option \<Rightarrow> ('s, unit) render" where
  "useInsertionEffect = effect_hook H_useInsertionEffect Insertion"

text \<open>
  \<open>createContext(default)\<close> makes a context; \<open>useContext\<close> reads the value of the nearest
  provider of that context above the component, and the default when there is none.
\<close>

definition createContext :: "string \<Rightarrow> jsval \<Rightarrow> context_object" where
  "createContext n d = \<lparr>ctx_id = n, default_value = d\<rparr>"

definition note_use :: "string \<Rightarrow> ('s, unit) render" where
  "note_use n = (\<lambda>r. (Inr (), r\<lparr>used := used r @ [n]\<rparr>))"

definition useContext :: "context_object \<Rightarrow> ('s, jsval) render" where
  "useContext c =
     rbind (note_hook H_useContext) (\<lambda>_.
     rbind (note_use (ctx_id c)) (\<lambda>_. (\<lambda>r.
       (Inr (case map_of (env r) (ctx_id c) of Some v \<Rightarrow> v | None \<Rightarrow> default_value c), r))))"

text \<open>
  \<open>useTransition()\<close>: the pending flag (false on mount) and \<open>startTransition\<close>, which
  runs the function it is given at once. \<open>useDeferredValue(v)\<close>: \<open>v\<close> on mount, the
  value of the previous render afterwards. \<open>useDebugValue\<close> labels the component for
  the developer tools; \<open>useId\<close> makes an identifier that stays the same across renders.
\<close>

definition startTransition :: "'s act list \<Rightarrow> ('s, unit) render" where
  "startTransition as = (\<lambda>r. (Inr (), r\<lparr>acts := acts r @ as\<rparr>))"

definition useTransition :: "('s, bool \<times> ('s act list \<Rightarrow> ('s, unit) render)) render" where
  "useTransition =
     rbind (take_slot H_useTransition) (\<lambda>p.
       case p of
         None \<Rightarrow> rbind (put_slot (TransitionSlot False)) (\<lambda>_. rreturn (False, startTransition))
       | Some (TransitionSlot b) \<Rightarrow>
           rbind (put_slot (TransitionSlot b)) (\<lambda>_. rreturn (b, startTransition))
       | Some _ \<Rightarrow> throw HookOrder)"

definition useDeferredValue :: "'s \<Rightarrow> ('s, 's) render" where
  "useDeferredValue v =
     rbind (take_slot H_useDeferredValue) (\<lambda>p.
       case p of
         None \<Rightarrow> rbind (put_slot (DeferredSlot v)) (\<lambda>_. rreturn v)
       | Some (DeferredSlot old) \<Rightarrow> rbind (put_slot (DeferredSlot v)) (\<lambda>_. rreturn old)
       | Some _ \<Rightarrow> throw HookOrder)"

definition useDebugValue :: "jsval \<Rightarrow> ('s, unit) render" where
  "useDebugValue v = note_hook H_useDebugValue"

definition useId :: "('s, nat) render" where
  "useId =
     rbind slot_index (\<lambda>i.
     rbind (take_slot H_useId) (\<lambda>p.
       case p of
         None \<Rightarrow> rbind (put_slot (IdSlot i)) (\<lambda>_. rreturn i)
       | Some (IdSlot n) \<Rightarrow> rbind (put_slot (IdSlot n)) (\<lambda>_. rreturn n)
       | Some _ \<Rightarrow> throw HookOrder))"

text \<open>
  A function declared at module level, with its name; \<open>call\<close> is a call of it from
  a render.
\<close>

record 's declared =
  decl_name :: string
  decl_fn :: "'s fn"

definition call :: "'s declared \<Rightarrow> ('s, 's retval) render" where
  "call d = rbind (note_use (decl_name d)) (\<lambda>_. rreturn (call_fn (decl_fn d)))"

text \<open>
  \<open>use(x)\<close> unwraps a promise: the value of a fulfilled one; on a pending one the
  render is suspended, which React does by throwing.
\<close>

definition use :: "'s retval \<Rightarrow> ('s, jsval) render" where
  "use x =
     rbind (note_hook H_use) (\<lambda>_.
       case x of
         RetPromise (Fulfilled v) \<Rightarrow> rreturn v
       | RetPromise (Pending b) \<Rightarrow> throw Suspended
       | _ \<Rightarrow> throw TypeError)"

text \<open>A render of a component: under the context values \<open>e\<close>, from the slots \<open>f\<close>.\<close>

definition render ::
  "('s, 'a) render \<Rightarrow> (string \<times> jsval) list \<Rightarrow> 's slot list option \<Rightarrow> (error + 'a) \<times> 's rstate" where
  "render c e f =
     c \<lparr>prev = f, slots = [], trace = [], effects = [], acts = [], env = e, used = []\<rparr>"

definition returned :: "(error + 'a) \<times> 's rstate \<Rightarrow> error + 'a" where
  "returned x = fst x"

definition hooks_called :: "(error + 'a) \<times> 's rstate \<Rightarrow> hook list" where
  "hooks_called x = trace (snd x)"

definition registered :: "(error + 'a) \<times> 's rstate \<Rightarrow> 's effect list" where
  "registered x = effects (snd x)"

definition fiber :: "(error + 'a) \<times> 's rstate \<Rightarrow> 's slot list" where
  "fiber x = slots (snd x)"

text \<open>
  Between renders the state changes by the acts of event handlers and effects: a
  \<open>SetSlot\<close> on a state slot replaces its state.
\<close>

fun apply_act :: "'s act \<Rightarrow> 's slot list \<Rightarrow> 's slot list" where
  "apply_act (SetSlot i g) f =
     (if i < length f
      then (case f ! i of StateSlot v \<Rightarrow> f[i := StateSlot (g v)] | _ \<Rightarrow> f)
      else f)"
| "apply_act (ConsoleLog s) f = f"

definition apply_acts :: "'s act list \<Rightarrow> 's slot list \<Rightarrow> 's slot list" where
  "apply_acts as f = foldl (\<lambda>f a. apply_act a f) f as"

text \<open>The attributes of a given name on the host tags of an element, in document order.\<close>

fun attrs_named :: "string \<Rightarrow> 's element \<Rightarrow> 's attr list" where
  "attrs_named k (Tag t as kids) =
     map snd (filter (\<lambda>a. fst a = k) as) @ concat (map (attrs_named k) kids)"
| "attrs_named k (Items kids) = concat (map (attrs_named k) kids)"
| "attrs_named k (Provider c v kids) = concat (map (attrs_named k) kids)"
| "attrs_named k (Text s) = []"
| "attrs_named k (Expr v) = []"
| "attrs_named k (Child c props) = []"


section \<open>The components\<close>

subsection \<open>1. useState\<close>

definition UseStateExample :: "(number, number element) render" where
  "UseStateExample =
     rbind (useState (Finite 0)) (\<lambda>(count, setCount).
     rreturn
       (Tag ''button'' [(''onclick'', Handler (\<lambda>e. [setCount (js_add count (Finite 1))]))]
          [Text ''useState increment: '', Expr (Num count)]))"

subsection \<open>2. useReducer\<close>

definition UseReducerExample :: "(state, state element) render" where
  "UseReducerExample =
     rbind (useReducer reducer \<lparr>count = Finite 0\<rparr>) (\<lambda>(state, dispatch).
     rreturn
       (Tag ''button'' [(''onclick'', Handler (\<lambda>e. [dispatch \<lparr>type = Str ''increment''\<rparr>]))]
          [Text ''useReducer increment: '', Expr (Num (count state))]))"

subsection \<open>3. useSyncExternalStore\<close>

definition UseSyncExternalStoreExample :: "('s, 's element) render" where
  "UseSyncExternalStoreExample =
     rreturn (Tag ''div'' [] [Text ''useSyncExternalStore Example''])"

subsection \<open>4. useEffect\<close>

definition ebind :: "error + 'a \<Rightarrow> ('a \<Rightarrow> error + 'b) \<Rightarrow> error + 'b" where
  "ebind x f = (case x of Inl e \<Rightarrow> Inl e | Inr v \<Rightarrow> f v)"

definition UseEffectExample :: "(jsval, jsval element) render" where
  "UseEffectExample =
     rbind (useState (Arr [])) (\<lambda>(response, setResponse).
     rbind (useEffect
              (AsyncFn (AwaitFetch ''https://api.example.com/data'' (\<lambda>res.
                 Perform (setResponse res) (Return Undefined))))
              (Some [])) (\<lambda>_.
     rbind (lift (get_prop response ''data'')) (\<lambda>d.
     rbind (lift (js_map d (\<lambda>item.
              ebind (get_prop item ''name'') (\<lambda>n. Inr (Tag ''li'' [] [Expr n]))))) (\<lambda>items.
     rreturn (Tag ''div'' [] [Text ''useEffect Example'', Expr (Str '' ''), Items items])))))"

subsection \<open>5. useLayoutEffect\<close>

definition UseLayoutEffectExample :: "(jsval, jsval element) render" where
  "UseLayoutEffectExample =
     rbind (useState (Arr [])) (\<lambda>(response, setResponse).
     rbind (useLayoutEffect
              (AsyncFn (AwaitFetch ''https://api.example.com/data'' (\<lambda>res.
                 Perform (setResponse res) (Return Undefined))))
              None) (\<lambda>_.
     rbind (lift (get_prop response ''data'')) (\<lambda>d.
     rbind (lift (js_map d (\<lambda>item.
              ebind (get_prop item ''name'') (\<lambda>n. Inr (Tag ''li'' [] [Expr n]))))) (\<lambda>items.
     rreturn (Tag ''div'' [] [Text ''useLayoutEffect Example'', Expr (Str '' ''), Items items])))))"

subsection \<open>6. useInsertionEffect\<close>

definition UseInsertionEffectExample :: "(jsval, jsval element) render" where
  "UseInsertionEffectExample =
     rbind (useState (Arr [])) (\<lambda>(dependencies, setDependencies).
     rbind (useInsertionEffect (AsyncFn (Return Undefined)) (Some [dependencies])) (\<lambda>_.
     rreturn (Tag ''div'' [] [Text ''useInsertionEffect Example''])))"

subsection \<open>7. useRef\<close>

definition UseRefExample :: "(jsval, jsval element) render" where
  "UseRefExample =
     rbind (useRef (Str '''')) (\<lambda>refExample.
     rbind (lift (get_prop (current refExample) ''value'')) (\<lambda>v.
     rreturn
       (Tag ''div'' []
          [Tag ''h1'' [] [Text ''useRef Example''],
           Tag ''input'' [(''type'', Lit ''text''), (''ref'', RefTo (ref_slot refExample))] [],
           Tag ''p'' [] [Expr v]])))"

subsection \<open>8. useMemo\<close>

definition expensiveComputation :: "number \<Rightarrow> (number, number) render" where
  "expensiveComputation num =
     rbind (console_log ''Computing...'') (\<lambda>_. rreturn (js_mul num (Finite 2)))"

definition UseMemoExample :: "(number, number element) render" where
  "UseMemoExample =
     rbind (useState (Finite 0)) (\<lambda>(count, setCount).
     rbind (useMemo (expensiveComputation count) [count]) (\<lambda>memoizedValue.
     rreturn
       (Tag ''div'' []
          [Tag ''h1'' [] [Text ''useMemo Example''],
           Tag ''p'' [] [Text ''Computed Value: '', Expr (Num memoizedValue)],
           Tag ''button''
             [(''onClick'', Handler (\<lambda>e. [setCount (js_add count (Finite 1))]))]
             [Text ''Increment'']])))"

subsection \<open>9. useCallback\<close>

text \<open>
  \<open>ChildComponent\<close> takes its props; it is wrapped in \<open>React.memo\<close>, which only
  decides whether it is rendered again and is not modelled.
\<close>

definition ChildComponent :: "(string \<times> 's attr) list \<Rightarrow> ('s, 's element) render" where
  "ChildComponent props =
     (let onClick = (case map_of props ''onClick'' of Some a \<Rightarrow> a | None \<Rightarrow> Val Undefined) in
      rbind (console_log ''Child rendered'') (\<lambda>_.
      rreturn (Tag ''button'' [(''onClick'', onClick)] [Text ''Click me''])))"

definition UseCallbackExample :: "(number, number element) render" where
  "UseCallbackExample =
     rbind (useState (Finite 0)) (\<lambda>(count, setCount).
     rbind (useCallback (\<lambda>e. [ConsoleLog ''Button clicked'']) []) (\<lambda>handleClick.
     rreturn
       (Tag ''div'' []
          [Tag ''h1'' [] [Text ''useCallback Example''],
           Tag ''p'' [] [Text ''Count: '', Expr (Num count)],
           Tag ''button''
             [(''onClick'', Handler (\<lambda>e. [setCount (js_add count (Finite 1))]))]
             [Text ''Increment''],
           Child C_ChildComponent [(''onClick'', Handler handleClick)]])))"

subsection \<open>10. useContext\<close>

definition ThemeContext :: context_object where
  "ThemeContext = createContext ''ThemeContext'' (Str ''light'')"

definition UseContextExample :: "('s, 's element) render" where
  "UseContextExample =
     rreturn
       (Tag ''div'' []
          [Tag ''h1'' [] [Text ''useContext Example''],
           Provider ThemeContext (Str ''dark'') [Child C_ChildComponentContext []]])"

definition ChildComponentContext :: "('s, 's element) render" where
  "ChildComponentContext =
     rbind (useContext ThemeContext) (\<lambda>theme.
     rreturn (Tag ''p'' [] [Text ''Current theme: '', Expr theme]))"

subsection \<open>11. useTransition\<close>

definition UseTransitionExample :: "('s, 's element) render" where
  "UseTransitionExample =
     rbind useTransition (\<lambda>(isPending, startTransition).
     rbind (startTransition []) (\<lambda>_.
     rreturn
       (Tag ''div'' []
          [Text ''useTransition Example'',
           (if isPending then Tag ''div'' [] [Text ''Loading...''] else Expr (Bool False)),
           (if \<not> isPending then Tag ''div'' [] [Text ''Loaded''] else Expr (Bool False))])))"

subsection \<open>12. useDeferredValue\<close>

definition UseDeferredValueExample :: "(string, string element) render" where
  "UseDeferredValueExample =
     rbind (useState '''') (\<lambda>(input, setInput).
     rbind (useDeferredValue input) (\<lambda>deferredInput.
     rreturn
       (Tag ''div'' []
          [Tag ''h1'' [] [Text ''useDeferredValue Example''],
           Tag ''input''
             [(''type'', Lit ''text''), (''value'', Val (Str input)),
              (''onChange'', Handler (\<lambda>e. [setInput (target_value e)]))] [],
           Tag ''p'' [] [Text ''Deferred Value: '', Expr (Str deferredInput)]])))"

subsection \<open>13. useDebugValue\<close>

definition UseDebugValueExample :: "('s, 's element) render" where
  "UseDebugValueExample =
     (let debugValue = Str ''some debug value'' in
      rbind (useDebugValue debugValue) (\<lambda>_.
      rreturn (Tag ''div'' [] [Text ''useDebugValue Example''])))"

subsection \<open>14. useId\<close>

text \<open>The attributes are the string literals \<open>"{ID}"\<close> and \<open>"{ID2}"\<close>, not the identifiers.\<close>

definition UseIdExample :: "('s, 's element) render" where
  "UseIdExample =
     rbind useId (\<lambda>ID.
     rbind useId (\<lambda>ID2.
     rreturn
       (Tag ''div'' []
          [Text ''useId Example'',
           Tag ''form'' [(''action'', Lit '''')]
             [Tag ''label'' [(''htmlFor'', Lit ''{ID}'')] [Text ''first input''],
              Expr (Str '' ''),
              Tag ''input'' [(''type'', Lit ''text''), (''id'', Lit ''{ID}'')] [],
              Tag ''label'' [(''htmlFor'', Lit ''{ID2}'')] [Text ''second input''],
              Tag ''input'' [(''type'', Lit ''text''), (''id'', Lit ''{ID2}'')] []]])))"

subsection \<open>15. use\<close>

definition fetchDataFromAPI :: "'s declared" where
  "fetchDataFromAPI =
     \<lparr>decl_name = ''fetchDataFromAPI'',
      decl_fn =
        AsyncFn (AwaitFetch ''https://api.example.com/data'' (\<lambda>res.
          AwaitJson res (\<lambda>d. Return d)))\<rparr>"

definition MyComponent :: "('s, 's element) render" where
  "MyComponent =
     rbind (call fetchDataFromAPI) (\<lambda>promise.
     rbind (use promise) (\<lambda>data.
     rreturn
       (Tag ''div'' []
          [if truthy data then Tag ''div'' [] [Expr data]
           else Tag ''p'' [] [Text ''Loading...'']])))"

section \<open>Rendering children\<close>

text \<open>
  An element that names a component of this file is rendered by calling the
  component, on mount, under the context values in scope; a provider puts its value in
  scope for its children and adds no node of its own.
\<close>

fun component_of :: "comp \<Rightarrow> (string \<times> 's attr) list \<Rightarrow> ('s, 's element) render" where
  "component_of C_ChildComponent props = ChildComponent props"
| "component_of C_ChildComponentContext props = ChildComponentContext"

fun expand :: "(string \<times> jsval) list \<Rightarrow> 's element \<Rightarrow> error + 's element list" where
  "expand e (Tag t as kids) =
     ebind (sequence (map (expand e) kids)) (\<lambda>ks. Inr [Tag t as (concat ks)])"
| "expand e (Items kids) =
     ebind (sequence (map (expand e) kids)) (\<lambda>ks. Inr (concat ks))"
| "expand e (Provider c v kids) =
     ebind (sequence (map (expand ((ctx_id c, v) # e)) kids)) (\<lambda>ks. Inr (concat ks))"
| "expand e (Child c props) =
     ebind (returned (render (component_of c props) e None)) (\<lambda>el. Inr [el])"
| "expand e (Text s) = Inr [Text s]"
| "expand e (Expr v) = Inr [Expr v]"

definition render_tree :: "('s, 's element) render \<Rightarrow> error + 's element list" where
  "render_tree c = ebind (returned (render c [] None)) (expand [])"

section \<open>Observing a render\<close>

text \<open>
  What each effect function registered by a render returns when React calls it, and
  what running it against a world does.
\<close>

definition effect_returns :: "(error + 'a) \<times> 's rstate \<Rightarrow> 's retval list" where
  "effect_returns x = map (\<lambda>ef. call_fn (create ef)) (registered x)"

definition run_effect :: "world \<Rightarrow> 's effect \<Rightarrow> 's ran" where
  "run_effect w ef =
     (case create ef of
        AsyncFn b \<Rightarrow> run_async w b
      | Fn as c \<Rightarrow> \<lparr>requests = [], performed = as, resolved = Some Undefined\<rparr>)"

text \<open>The hooks that create a component-local value: state, reducer state, ref.\<close>

fun state_hook :: "hook \<Rightarrow> bool" where
  "state_hook H_useState = True"
| "state_hook H_useReducer = True"
| "state_hook H_useRef = True"
| "state_hook h = False"

text \<open>The tag and the attribute names of the element a render returns.\<close>

fun root_tag :: "error + 's element \<Rightarrow> string option" where
  "root_tag (Inr (Tag t as kids)) = Some t"
| "root_tag x = None"

fun root_attrs :: "error + 's element \<Rightarrow> (string \<times> 's attr) list" where
  "root_attrs (Inr (Tag t as kids)) = as"
| "root_attrs x = []"

text \<open>
  React runs a function attribute of a host tag on an event only under the event's
  camel-case name; the two the file uses are \<open>onClick\<close> and \<open>onChange\<close>. A
  component's slots are reachable when they are the slots after its mount, or the slots
  after a render from reachable slots and one run of an event handler of the rendered
  tree.
\<close>

fun handlers_in :: "'s attr list \<Rightarrow> (event \<Rightarrow> 's act list) list" where
  "handlers_in [] = []"
| "handlers_in (Handler h # as) = h # handlers_in as"
| "handlers_in (a # as) = handlers_in as"

text \<open>
  A click on the element a render returned: the slots after the render and after the
  acts of the first \<open>onClick\<close> handler in the element (the slots after the render
  when there is none).
\<close>

definition click :: "event \<Rightarrow> (error + 's element) \<times> 's rstate \<Rightarrow> 's slot list" where
  "click ev x =
     (case fst x of
        Inl e \<Rightarrow> slots (snd x)
      | Inr el \<Rightarrow>
          (case handlers_in (attrs_named ''onClick'' el) of
             [] \<Rightarrow> slots (snd x)
           | h # hs \<Rightarrow> apply_acts (h ev) (slots (snd x))))"

definition event_props :: "string list" where
  "event_props = [''onClick'', ''onChange'']"

definition event_handlers :: "'s element \<Rightarrow> (event \<Rightarrow> 's act list) list" where
  "event_handlers el = concat (map (\<lambda>k. handlers_in (attrs_named k el)) event_props)"

inductive reachable :: "('s, 's element) render \<Rightarrow> 's slot list \<Rightarrow> bool" for c where
  mounted: "render c [] None = (Inr el, r) \<Longrightarrow> reachable c (slots r)"
| handled: "reachable c f \<Longrightarrow> render c [] (Some f) = (Inr el, r) \<Longrightarrow>
     expand [] el = Inr els \<Longrightarrow> h \<in> set (concat (map event_handlers els)) \<Longrightarrow>
     reachable c (apply_acts (h ev) (slots r))"

code_pred reachable .

section \<open>The numbered examples and what a render uses\<close>







section \<open>Properties\<close>

lemmas monad_defs =
  rreturn_def throw_def rbind_def lift_def perform_def console_log_def take_slot_def
  put_slot_def slot_index_def note_hook_def note_use_def call_def useState_def
  useReducer_def useRef_def useMemo_def useCallback_def effect_hook_def useEffect_def
  useLayoutEffect_def useInsertionEffect_def register_def useContext_def
  startTransition_def useTransition_def useDeferredValue_def useDebugValue_def useId_def
  use_def render_def returned_def hooks_called_def registered_def fiber_def

lemmas runtime_defs = monad_defs ebind_def

lemmas case_splits = sum.splits option.splits list.splits slot.splits

subsection \<open>Arithmetic on doubles\<close>

text \<open>
  Where the operations of the file are exact: every integer of magnitude up to
  \<open>2^53\<close> is a double, so a sum or difference of that size is not rounded, and neither
  is the double of a count up to \<open>2^53\<close>. One past \<open>2^53\<close> the tie is rounded to the
  even significand, back to \<open>2^53\<close>.
\<close>

declare bit_length.simps [simp del]

lemma bit_length_le: "x < 2 ^ k \<Longrightarrow> bit_length x \<le> k"
proof (induction k arbitrary: x)
  case 0
  then show ?case by (simp add: bit_length.simps)
next
  case (Suc k)
  show ?case
  proof (cases "x = 0")
    case True
    then show ?thesis by (simp add: bit_length.simps)
  next
    case False
    from Suc.prems have "x div 2 < 2 ^ k" by simp
    then have "bit_length (x div 2) \<le> k" by (rule Suc.IH)
    with False show ?thesis by (subst bit_length.simps) simp
  qed
qed

lemma nearest_double_exact:
  "2 ^ (bit_length x - 53) dvd x \<Longrightarrow> nearest_double x = x"
  by (auto simp: nearest_double_def Let_def dvd_eq_mod_eq_0)

lemma nearest_double_small: "x \<le> 2 ^ 53 \<Longrightarrow> nearest_double x = x"
proof (cases "x < 2 ^ 53")
  case True
  then have "bit_length x - 53 = 0" using bit_length_le [of x 53] by simp
  then show ?thesis by (simp add: nearest_double_exact)
next
  case False
  assume "x \<le> 2 ^ 53"
  with False have x: "x = 2 ^ 53" by simp
  have "x < 2 ^ 54" by (simp add: x)
  then have "bit_length x - 53 \<le> 1" using bit_length_le [of x 54] by simp
  then have "(2::nat) ^ (bit_length x - 53) dvd 2 ^ 53"
    by (intro le_imp_power_dvd) simp
  then show ?thesis by (simp add: nearest_double_exact x)
qed

lemma to_double_exact: "\<bar>x\<bar> \<le> 2 ^ 53 \<Longrightarrow> to_double x = Finite x"
proof -
  assume a: "\<bar>x\<bar> \<le> 2 ^ 53"
  then have n: "nat \<bar>x\<bar> \<le> 2 ^ 53"
    by (simp add: nat_le_iff)
  have m: "nearest_double (nat \<bar>x\<bar>) = nat \<bar>x\<bar>"
    using n by (rule nearest_double_small)
  have "nat \<bar>x\<bar> < 2 ^ 1024"
    using n by (rule le_less_trans) simp
  then show ?thesis
    by (simp add: to_double_def m Let_def)
qed

lemma nearest_double_twice: "x \<le> 2 ^ 53 \<Longrightarrow> nearest_double (x * 2) = x * 2"
proof (cases "x < 2 ^ 53")
  case True
  then have "x * 2 < 2 ^ 54" by simp
  then have "bit_length (x * 2) - 53 \<le> 1" using bit_length_le [of "x * 2" 54] by simp
  then have "(2::nat) ^ (bit_length (x * 2) - 53) dvd 2 ^ 1"
    by (intro le_imp_power_dvd)
  then have "2 ^ (bit_length (x * 2) - 53) dvd x * 2"
    by (rule dvd_trans) simp
  then show ?thesis by (rule nearest_double_exact)
next
  case False
  assume "x \<le> 2 ^ 53"
  with False have x: "x = 2 ^ 53" by simp
  have "x * 2 < 2 ^ 55" by (simp add: x)
  then have "bit_length (x * 2) - 53 \<le> 2" using bit_length_le [of "x * 2" 55] by simp
  then have "(2::nat) ^ (bit_length (x * 2) - 53) dvd 2 ^ 54"
    by (intro le_imp_power_dvd) simp
  then have "2 ^ (bit_length (x * 2) - 53) dvd x * 2"
    by (simp add: x)
  then show ?thesis by (rule nearest_double_exact)
qed

lemma to_double_twice: "0 \<le> c \<Longrightarrow> c \<le> 2 ^ 53 \<Longrightarrow> to_double (c * 2) = Finite (c * 2)"
proof -
  assume a: "0 \<le> c" "c \<le> 2 ^ 53"
  then have n: "nat c \<le> 2 ^ 53"
    by (simp add: nat_le_iff)
  have e: "nat \<bar>c * 2\<bar> = nat c * 2"
    using a by (simp add: nat_mult_distrib)
  have m: "nearest_double (nat \<bar>c * 2\<bar>) = nat c * 2"
    unfolding e using n by (rule nearest_double_twice)
  have "nat c * 2 \<le> 2 ^ 53 * 2" using n by simp
  also have "\<dots> < (2::nat) ^ 1024" by simp
  finally have b: "\<not> 2 ^ 1024 \<le> nat c * 2" by simp
  have "\<not> c * 2 < 0" using a by simp
  then show ?thesis
    unfolding to_double_def Let_def m using a b by simp
qed

lemma bit_length_past_limit: "bit_length 9007199254740993 = 54"
  by (simp add: bit_length.simps)

lemma to_double_past_limit:
  "to_double 9007199254740993 = Finite 9007199254740992 \<and>
   to_double (- 9007199254740993) = Finite (- 9007199254740992)"
  by (simp add: to_double_def nearest_double_def Let_def bit_length_past_limit)

lemma js_add_one: "\<bar>n + 1\<bar> \<le> 2 ^ 53 \<Longrightarrow> js_add (Finite n) (Finite 1) = Finite (n + 1)"
  by (simp add: to_double_exact)

lemma js_sub_one: "\<bar>n - 1\<bar> \<le> 2 ^ 53 \<Longrightarrow> js_sub (Finite n) (Finite 1) = Finite (n - 1)"
  by (simp add: js_sub_def to_double_exact)

lemma js_mul_two: "0 \<le> c \<Longrightarrow> c \<le> 2 ^ 53 \<Longrightarrow> js_mul (Finite c) (Finite 2) = Finite (2 * c)"
  by (simp add: to_double_twice mult.commute)

lemma js_add_one_at_limit:
  "js_add (Finite 9007199254740992) (Finite 1) = Finite 9007199254740992"
  using to_double_past_limit by simp

lemma js_sub_one_at_limit:
  "js_sub (Finite (- 9007199254740992)) (Finite 1) = Finite (- 9007199254740992)"
  using to_double_past_limit by (simp add: js_sub_def)

lemma js_add_one_bounded:
  "0 \<le> c \<Longrightarrow> c \<le> 2 ^ 53 \<Longrightarrow>
   js_add (Finite c) (Finite 1) = Finite (if c < 2 ^ 53 then c + 1 else c)"
proof (cases "c < 2 ^ 53")
  case True
  assume "0 \<le> c"
  with True have "\<bar>c + 1\<bar> \<le> 2 ^ 53" by simp
  then have "js_add (Finite c) (Finite 1) = Finite (c + 1)" by (rule js_add_one)
  with True show ?thesis by simp
next
  case False
  assume "c \<le> 2 ^ 53"
  with False have "c = 9007199254740992" by simp
  then show ?thesis using js_add_one_at_limit by simp
qed

subsection \<open>The first render of the effect examples\<close>

text \<open>
  C1. In the useEffect and the useLayoutEffect example the state \<open>response\<close> is the
  empty array on the first render, and on every later render that finds the state
  still the empty array; its field \<open>data\<close> reads as \<open>undefined\<close>, the call of
  \<open>map\<close> on \<open>undefined\<close> throws, and so the render throws a TypeError and returns no
  element.
\<close>

theorem response_data_read_fails_before_fetch:
  "fiber (render UseEffectExample e None) = [StateSlot (Arr []), EffectSlot (Some [])] \<and>
   fiber (render UseLayoutEffectExample e None) = [StateSlot (Arr []), EffectSlot None] \<and>
   get_prop (Arr []) ''data'' = Inr Undefined \<and>
   js_map Undefined g = Inl TypeError \<and>
   returned (render UseEffectExample e None) = Inl TypeError \<and>
   returned (render UseLayoutEffectExample e None) = Inl TypeError \<and>
   returned (render UseEffectExample e (Some [StateSlot (Arr []), EffectSlot d])) = Inl TypeError \<and>
   returned (render UseLayoutEffectExample e (Some [StateSlot (Arr []), EffectSlot d])) =
     Inl TypeError"
  by (simp add: UseEffectExample_def UseLayoutEffectExample_def runtime_defs)

subsection \<open>The functions given to the effect hooks\<close>

text \<open>
  C2. Each of the three effect examples registers one effect with an async function.
  Called, the function returns a pending promise, which is neither \<open>undefined\<close> nor a
  function, the two values React accepts as the clean-up of an effect. This holds on
  mount, on every render from stored slots, and (last three lines) for whatever a
  render from any slots registers.
\<close>

theorem effect_functions_return_promises:
  "effect_returns (render UseEffectExample e None) =
     [RetPromise (Pending (AwaitFetch ''https://api.example.com/data''
        (\<lambda>res. Perform (SetSlot 0 (\<lambda>_. res)) (Return Undefined))))] \<and>
   effect_returns (render UseEffectExample e (Some [StateSlot s, EffectSlot d])) =
     [RetPromise (Pending (AwaitFetch ''https://api.example.com/data''
        (\<lambda>res. Perform (SetSlot 0 (\<lambda>_. res)) (Return Undefined))))] \<and>
   effect_returns (render UseLayoutEffectExample e None) =
     [RetPromise (Pending (AwaitFetch ''https://api.example.com/data''
        (\<lambda>res. Perform (SetSlot 0 (\<lambda>_. res)) (Return Undefined))))] \<and>
   effect_returns (render UseLayoutEffectExample e (Some [StateSlot s, EffectSlot d])) =
     [RetPromise (Pending (AwaitFetch ''https://api.example.com/data''
        (\<lambda>res. Perform (SetSlot 0 (\<lambda>_. res)) (Return Undefined))))] \<and>
   effect_returns (render UseInsertionEffectExample e None) =
     [RetPromise (Pending (Return Undefined))] \<and>
   effect_returns (render UseInsertionEffectExample e (Some [StateSlot s, EffectSlot d])) =
     [RetPromise (Pending (Return Undefined))] \<and>
   list_all (\<lambda>v. \<not> is_cleanup v) (effect_returns (render UseEffectExample e f)) \<and>
   list_all (\<lambda>v. \<not> is_cleanup v) (effect_returns (render UseLayoutEffectExample e f)) \<and>
   list_all (\<lambda>v. \<not> is_cleanup v) (effect_returns (render UseInsertionEffectExample e f))"
proof -
  have 1: "list_all (\<lambda>v. \<not> is_cleanup v) (effect_returns (render UseEffectExample e f))"
    by (simp add: effect_returns_def UseEffectExample_def runtime_defs Let_def
        split: case_splits)
  have 2: "list_all (\<lambda>v. \<not> is_cleanup v) (effect_returns (render UseLayoutEffectExample e f))"
    by (simp add: effect_returns_def UseLayoutEffectExample_def runtime_defs Let_def
        split: case_splits)
  have 3: "list_all (\<lambda>v. \<not> is_cleanup v) (effect_returns (render UseInsertionEffectExample e f))"
    by (simp add: effect_returns_def UseInsertionEffectExample_def runtime_defs Let_def
        split: case_splits)
  show ?thesis
    using 1 2 3
    by (simp add: effect_returns_def UseEffectExample_def UseLayoutEffectExample_def
        UseInsertionEffectExample_def runtime_defs set_state_def split: sum.splits)
qed

subsection \<open>The reducer\<close>

text \<open>
  For every count, C3 does not hold: the sum and the difference are doubles. At the
  count \<open>2^53\<close> the action \<open>increment\<close> returns the count \<open>2^53\<close>, not
  \<open>2^53 + 1\<close>, and at \<open>-2^53\<close> the action \<open>decrement\<close> returns \<open>-2^53\<close>.
\<close>

theorem reducer_rounds_at_the_limit:
  "reducer \<lparr>count = Finite 9007199254740992\<rparr> \<lparr>type = Str ''increment''\<rparr> =
     \<lparr>count = Finite 9007199254740992\<rparr> \<and>
   reducer \<lparr>count = Finite 9007199254740992\<rparr> \<lparr>type = Str ''increment''\<rparr> \<noteq>
     \<lparr>count = Finite (9007199254740992 + 1)\<rparr> \<and>
   reducer \<lparr>count = Finite (- 9007199254740992)\<rparr> \<lparr>type = Str ''decrement''\<rparr> =
     \<lparr>count = Finite (- 9007199254740992)\<rparr> \<and>
   reducer \<lparr>count = Finite (- 9007199254740992)\<rparr> \<lparr>type = Str ''decrement''\<rparr> \<noteq>
     \<lparr>count = Finite (- 9007199254740992 - 1)\<rparr>"
  by (simp add: reducer_def js_add_one_at_limit js_sub_one_at_limit del: js_add.simps)

text \<open>
  C3, for the counts below the limit. The reducer is a function from a state and an
  action to a state (it has no failing branch): on \<open>{count: n}\<close> with \<open>n\<close> an integer
  of magnitude below \<open>2^53\<close> the action of type \<open>"increment"\<close> gives
  \<open>{count: n + 1}\<close> and the action of type \<open>"decrement"\<close> gives \<open>{count: n - 1}\<close>; on
  every state, an action whose type is any other value gives back the state it was
  called with.
\<close>

theorem reducer_transitions:
  assumes "\<bar>n\<bar> < 2 ^ 53"
  shows
  "reducer \<lparr>count = Finite n\<rparr> \<lparr>type = Str ''increment''\<rparr> = \<lparr>count = Finite (n + 1)\<rparr> \<and>
   reducer \<lparr>count = Finite n\<rparr> \<lparr>type = Str ''decrement''\<rparr> = \<lparr>count = Finite (n - 1)\<rparr> \<and>
   (t \<noteq> Str ''increment'' \<and> t \<noteq> Str ''decrement'' \<longrightarrow> reducer s \<lparr>type = t\<rparr> = s)"
proof -
  from assms have "\<bar>n + 1\<bar> \<le> 2 ^ 53" and "\<bar>n - 1\<bar> \<le> 2 ^ 53"
    by simp_all
  then have "js_add (Finite n) (Finite 1) = Finite (n + 1)"
    and "js_sub (Finite n) (Finite 1) = Finite (n - 1)"
    by (simp_all only: js_add_one js_sub_one)
  then show ?thesis
    by (simp add: reducer_def del: js_add.simps)
qed

theorem reducer_transitions_witness:
  "\<bar>41 :: int\<bar> < 2 ^ 53 \<and>
   reducer \<lparr>count = Finite 41\<rparr> \<lparr>type = Str ''increment''\<rparr> = \<lparr>count = Finite 42\<rparr> \<and>
   reducer \<lparr>count = Finite 41\<rparr> \<lparr>type = Str ''decrement''\<rparr> = \<lparr>count = Finite 40\<rparr> \<and>
   Str ''reset'' \<noteq> Str ''increment'' \<and> Str ''reset'' \<noteq> Str ''decrement'' \<and>
   reducer \<lparr>count = NaN\<rparr> \<lparr>type = Str ''reset''\<rparr> = \<lparr>count = NaN\<rparr>"
  using reducer_transitions [of 41 "Str ''reset''" "\<lparr>count = NaN\<rparr>"] by simp

subsection \<open>What the effects of the fetching examples store\<close>

text \<open>
  C4. Whenever \<open>fetch\<close> resolves with a response \<open>res\<close>, the effect of the useEffect
  example and of the useLayoutEffect example makes one request, the fetch itself (it
  never asks for \<open>res.json()\<close>), and performs one act, \<open>setResponse(res)\<close>: the state
  \<open>response\<close> becomes \<open>res\<close>, the response object as fetch gave it, whatever its
  body would parse to.
\<close>

theorem effect_stores_raw_fetch_result:
  assumes "fetch_result w ''https://api.example.com/data'' = Some res"
  shows
  "map (run_effect w) (registered (render UseEffectExample e None)) =
     [\<lparr>requests = [FetchReq ''https://api.example.com/data''],
       performed = [SetSlot 0 (\<lambda>_. res)], resolved = Some Undefined\<rparr>] \<and>
   map (run_effect w) (registered (render UseEffectExample e (Some [StateSlot s, EffectSlot d]))) =
     [\<lparr>requests = [FetchReq ''https://api.example.com/data''],
       performed = [SetSlot 0 (\<lambda>_. res)], resolved = Some Undefined\<rparr>] \<and>
   map (run_effect w) (registered (render UseLayoutEffectExample e None)) =
     [\<lparr>requests = [FetchReq ''https://api.example.com/data''],
       performed = [SetSlot 0 (\<lambda>_. res)], resolved = Some Undefined\<rparr>] \<and>
   map (run_effect w) (registered (render UseLayoutEffectExample e (Some [StateSlot s, EffectSlot d]))) =
     [\<lparr>requests = [FetchReq ''https://api.example.com/data''],
       performed = [SetSlot 0 (\<lambda>_. res)], resolved = Some Undefined\<rparr>] \<and>
   apply_acts [SetSlot 0 (\<lambda>_. res)] (fiber (render UseEffectExample e None)) =
     [StateSlot res, EffectSlot (Some [])] \<and>
   apply_acts [SetSlot 0 (\<lambda>_. res)]
       (fiber (render UseEffectExample e (Some [StateSlot s, EffectSlot d]))) =
     [StateSlot res, EffectSlot (Some [])] \<and>
   apply_acts [SetSlot 0 (\<lambda>_. res)] (fiber (render UseLayoutEffectExample e None)) =
     [StateSlot res, EffectSlot None] \<and>
   apply_acts [SetSlot 0 (\<lambda>_. res)]
       (fiber (render UseLayoutEffectExample e (Some [StateSlot s, EffectSlot d]))) =
     [StateSlot res, EffectSlot None]"
  using assms
  by (simp add: run_effect_def UseEffectExample_def UseLayoutEffectExample_def runtime_defs
      set_state_def apply_acts_def split: sum.splits)

theorem effect_stores_raw_fetch_result_witness:
  "fetch_result
     \<lparr>fetch_result = (\<lambda>u. Some (Host ''Response'' [])), json_result = (\<lambda>r. Some (Arr []))\<rparr>
     ''https://api.example.com/data'' = Some (Host ''Response'' []) \<and>
   map (run_effect
          \<lparr>fetch_result = (\<lambda>u. Some (Host ''Response'' [])), json_result = (\<lambda>r. Some (Arr []))\<rparr>)
       (registered (render UseEffectExample [] None)) =
     [\<lparr>requests = [FetchReq ''https://api.example.com/data''],
       performed = [SetSlot 0 (\<lambda>_. Host ''Response'' [])], resolved = Some Undefined\<rparr>] \<and>
   apply_acts [SetSlot 0 (\<lambda>_. Host ''Response'' [])] (fiber (render UseEffectExample [] None)) =
     [StateSlot (Host ''Response'' []), EffectSlot (Some [])] \<and>
   StateSlot (Host ''Response'' []) \<noteq> StateSlot (Arr [])"
  using effect_stores_raw_fetch_result
    [of "\<lparr>fetch_result = (\<lambda>u. Some (Host ''Response'' [])), json_result = (\<lambda>r. Some (Arr []))\<rparr>"
        "Host ''Response'' []" "[]" "Arr []" "Some []"]
  by simp

subsection \<open>The theme context\<close>

text \<open>
  C5. \<open>ChildComponentContext\<close> calls one hook, \<open>useContext(ThemeContext)\<close>, and
  shows the value it reads: the value of the nearest provider of \<open>ThemeContext\<close>, or
  the default \<open>"light"\<close> of the context when there is none. Rendered as the child of
  \<open>UseContextExample\<close> it is inside the provider with value \<open>"dark"\<close> and shows
  \<open>"dark"\<close>; rendered on its own it shows \<open>"light"\<close>.
\<close>

theorem theme_is_read_from_the_context:
  "render_tree UseContextExample =
     Inr [Tag ''div'' []
            [Tag ''h1'' [] [Text ''useContext Example''],
             Tag ''p'' [] [Text ''Current theme: '', Expr (Str ''dark'')]]] \<and>
   render_tree ChildComponentContext =
     Inr [Tag ''p'' [] [Text ''Current theme: '', Expr (Str ''light'')]] \<and>
   hooks_called (render ChildComponentContext e f) = [H_useContext] \<and>
   returned (render ChildComponentContext e f) =
     Inr (Tag ''p'' []
            [Text ''Current theme: '',
             Expr (case map_of e ''ThemeContext'' of Some v \<Rightarrow> v | None \<Rightarrow> Str ''light'')])"
  by (simp add: render_tree_def UseContextExample_def ChildComponentContext_def
      ThemeContext_def createContext_def runtime_defs split: option.splits)

subsection \<open>What the components use of the file\<close>



subsection \<open>The placeholder\<close>

text \<open>
  C7. The useSyncExternalStore example calls no hook, registers no effect and does
  nothing else: whatever the context values and the slots it is rendered from, it
  returns the same element and leaves the render state as it found it. No component
  of the file calls \<open>useSyncExternalStore\<close> in any render.
\<close>

theorem external_store_example_is_a_placeholder:
  "render UseSyncExternalStoreExample e f =
     (Inr (Tag ''div'' [] [Text ''useSyncExternalStore Example'']),
      \<lparr>prev = f, slots = [], trace = [], effects = [], acts = [], env = e, used = []\<rparr>) \<and>
   hooks_called (render UseSyncExternalStoreExample e f) = [] \<and>
   H_useSyncExternalStore \<notin> set (hooks_called (render UseStateExample e1 f1)) \<and>
   H_useSyncExternalStore \<notin> set (hooks_called (render UseReducerExample e2 f2)) \<and>
   H_useSyncExternalStore \<notin> set (hooks_called (render UseEffectExample e3 f3)) \<and>
   H_useSyncExternalStore \<notin> set (hooks_called (render UseLayoutEffectExample e4 f4)) \<and>
   H_useSyncExternalStore \<notin> set (hooks_called (render UseInsertionEffectExample e5 f5)) \<and>
   H_useSyncExternalStore \<notin> set (hooks_called (render UseRefExample e6 f6)) \<and>
   H_useSyncExternalStore \<notin> set (hooks_called (render UseMemoExample e7 f7)) \<and>
   H_useSyncExternalStore \<notin> set (hooks_called (render (ChildComponent props) e8 f8)) \<and>
   H_useSyncExternalStore \<notin> set (hooks_called (render UseCallbackExample e9 f9)) \<and>
   H_useSyncExternalStore \<notin> set (hooks_called (render UseContextExample e10 f10)) \<and>
   H_useSyncExternalStore \<notin> set (hooks_called (render ChildComponentContext e11 f11)) \<and>
   H_useSyncExternalStore \<notin> set (hooks_called (render UseTransitionExample e12 f12)) \<and>
   H_useSyncExternalStore \<notin> set (hooks_called (render UseDeferredValueExample e13 f13)) \<and>
   H_useSyncExternalStore \<notin> set (hooks_called (render UseDebugValueExample e14 f14)) \<and>
   H_useSyncExternalStore \<notin> set (hooks_called (render UseIdExample e15 f15)) \<and>
   H_useSyncExternalStore \<notin> set (hooks_called (render MyComponent e16 f16))"
proof -
  have a: "render UseSyncExternalStoreExample e f =
     (Inr (Tag ''div'' [] [Text ''useSyncExternalStore Example'']),
      \<lparr>prev = f, slots = [], trace = [], effects = [], acts = [], env = e, used = []\<rparr>)"
    by (simp add: UseSyncExternalStoreExample_def runtime_defs)
  have b: "hooks_called (render UseSyncExternalStoreExample e f) = []"
    by (simp add: a hooks_called_def)
  have 1: "H_useSyncExternalStore \<notin> set (hooks_called (render UseStateExample e1 f1))"
    by (simp add: UseStateExample_def runtime_defs Let_def split: case_splits)
  have 2: "H_useSyncExternalStore \<notin> set (hooks_called (render UseReducerExample e2 f2))"
    by (simp add: UseReducerExample_def runtime_defs Let_def split: case_splits)
  have 3: "H_useSyncExternalStore \<notin> set (hooks_called (render UseEffectExample e3 f3))"
    by (simp add: UseEffectExample_def runtime_defs Let_def split: case_splits)
  have 4: "H_useSyncExternalStore \<notin> set (hooks_called (render UseLayoutEffectExample e4 f4))"
    by (simp add: UseLayoutEffectExample_def runtime_defs Let_def split: case_splits)
  have 5: "H_useSyncExternalStore \<notin> set (hooks_called (render UseInsertionEffectExample e5 f5))"
    by (simp add: UseInsertionEffectExample_def runtime_defs Let_def split: case_splits)
  have 6: "H_useSyncExternalStore \<notin> set (hooks_called (render UseRefExample e6 f6))"
    by (simp add: UseRefExample_def runtime_defs Let_def split: case_splits)
  have 7: "H_useSyncExternalStore \<notin> set (hooks_called (render UseMemoExample e7 f7))"
    by (simp add: UseMemoExample_def expensiveComputation_def runtime_defs Let_def
        split: case_splits)
  have 8: "H_useSyncExternalStore \<notin> set (hooks_called (render (ChildComponent props) e8 f8))"
    by (simp add: ChildComponent_def runtime_defs Let_def split: case_splits)
  have 9: "H_useSyncExternalStore \<notin> set (hooks_called (render UseCallbackExample e9 f9))"
    by (simp add: UseCallbackExample_def runtime_defs Let_def split: case_splits)
  have 10: "H_useSyncExternalStore \<notin> set (hooks_called (render UseContextExample e10 f10))"
    by (simp add: UseContextExample_def runtime_defs Let_def split: case_splits)
  have 11: "H_useSyncExternalStore \<notin> set (hooks_called (render ChildComponentContext e11 f11))"
    by (simp add: ChildComponentContext_def runtime_defs Let_def split: case_splits)
  have 12: "H_useSyncExternalStore \<notin> set (hooks_called (render UseTransitionExample e12 f12))"
    by (simp add: UseTransitionExample_def runtime_defs Let_def split: case_splits)
  have 13: "H_useSyncExternalStore \<notin> set (hooks_called (render UseDeferredValueExample e13 f13))"
    by (simp add: UseDeferredValueExample_def runtime_defs Let_def split: case_splits)
  have 14: "H_useSyncExternalStore \<notin> set (hooks_called (render UseDebugValueExample e14 f14))"
    by (simp add: UseDebugValueExample_def runtime_defs Let_def split: case_splits)
  have 15: "H_useSyncExternalStore \<notin> set (hooks_called (render UseIdExample e15 f15))"
    by (simp add: UseIdExample_def runtime_defs Let_def split: case_splits)
  have 16: "H_useSyncExternalStore \<notin> set (hooks_called (render MyComponent e16 f16))"
    by (simp add: MyComponent_def fetchDataFromAPI_def runtime_defs Let_def split: case_splits)
  from a b 1 2 3 4 5 6 7 8 9 10 11 12 13 14 15 16 show ?thesis
    by blast
qed

subsection \<open>State-creating hooks\<close>

text \<open>The hooks each component calls on mount, in call order.\<close>

lemma hooks_on_mount:
  "hooks_called (render UseStateExample e None) = [H_useState] \<and>
   hooks_called (render UseReducerExample e None) = [H_useReducer] \<and>
   hooks_called (render UseSyncExternalStoreExample e None) = [] \<and>
   hooks_called (render UseEffectExample e None) = [H_useState, H_useEffect] \<and>
   hooks_called (render UseLayoutEffectExample e None) = [H_useState, H_useLayoutEffect] \<and>
   hooks_called (render UseInsertionEffectExample e None) = [H_useState, H_useInsertionEffect] \<and>
   hooks_called (render UseRefExample e None) = [H_useRef] \<and>
   hooks_called (render UseMemoExample e None) = [H_useState, H_useMemo] \<and>
   hooks_called (render (ChildComponent props) e None) = [] \<and>
   hooks_called (render UseCallbackExample e None) = [H_useState, H_useCallback] \<and>
   hooks_called (render UseContextExample e None) = [] \<and>
   hooks_called (render ChildComponentContext e None) = [H_useContext] \<and>
   hooks_called (render UseTransitionExample e None) = [H_useTransition] \<and>
   hooks_called (render UseDeferredValueExample e None) = [H_useState, H_useDeferredValue] \<and>
   hooks_called (render UseDebugValueExample e None) = [H_useDebugValue] \<and>
   hooks_called (render UseIdExample e None) = [H_useId, H_useId] \<and>
   hooks_called (render MyComponent e None) = [H_use]"
  by (simp add: UseStateExample_def UseReducerExample_def UseSyncExternalStoreExample_def
      UseEffectExample_def UseLayoutEffectExample_def UseInsertionEffectExample_def
      UseRefExample_def UseMemoExample_def expensiveComputation_def ChildComponent_def
      UseCallbackExample_def UseContextExample_def ChildComponentContext_def
      ThemeContext_def createContext_def UseTransitionExample_def
      UseDeferredValueExample_def UseDebugValueExample_def UseIdExample_def MyComponent_def
      fetchDataFromAPI_def runtime_defs)

text \<open>
  C8. No component of the file calls more than one of \<open>useState\<close>, \<open>useReducer\<close>
  and \<open>useRef\<close> in a render, whatever the context values and the slots it is
  rendered from.
\<close>

theorem at_most_one_state_hook_per_render:
  "length (filter state_hook (hooks_called (render UseStateExample e1 f1))) \<le> 1 \<and>
   length (filter state_hook (hooks_called (render UseReducerExample e2 f2))) \<le> 1 \<and>
   length (filter state_hook (hooks_called (render UseSyncExternalStoreExample e3 f3))) \<le> 1 \<and>
   length (filter state_hook (hooks_called (render UseEffectExample e4 f4))) \<le> 1 \<and>
   length (filter state_hook (hooks_called (render UseLayoutEffectExample e5 f5))) \<le> 1 \<and>
   length (filter state_hook (hooks_called (render UseInsertionEffectExample e6 f6))) \<le> 1 \<and>
   length (filter state_hook (hooks_called (render UseRefExample e7 f7))) \<le> 1 \<and>
   length (filter state_hook (hooks_called (render UseMemoExample e8 f8))) \<le> 1 \<and>
   length (filter state_hook (hooks_called (render (ChildComponent props) e9 f9))) \<le> 1 \<and>
   length (filter state_hook (hooks_called (render UseCallbackExample e10 f10))) \<le> 1 \<and>
   length (filter state_hook (hooks_called (render UseContextExample e11 f11))) \<le> 1 \<and>
   length (filter state_hook (hooks_called (render ChildComponentContext e12 f12))) \<le> 1 \<and>
   length (filter state_hook (hooks_called (render UseTransitionExample e13 f13))) \<le> 1 \<and>
   length (filter state_hook (hooks_called (render UseDeferredValueExample e14 f14))) \<le> 1 \<and>
   length (filter state_hook (hooks_called (render UseDebugValueExample e15 f15))) \<le> 1 \<and>
   length (filter state_hook (hooks_called (render UseIdExample e16 f16))) \<le> 1 \<and>
   length (filter state_hook (hooks_called (render MyComponent e17 f17))) \<le> 1"
proof -
  have 1: "length (filter state_hook (hooks_called (render UseStateExample e1 f1))) \<le> 1"
    by (simp add: UseStateExample_def runtime_defs Let_def split: case_splits)
  have 2: "length (filter state_hook (hooks_called (render UseReducerExample e2 f2))) \<le> 1"
    by (simp add: UseReducerExample_def runtime_defs Let_def split: case_splits)
  have 3: "length (filter state_hook (hooks_called (render UseSyncExternalStoreExample e3 f3))) \<le> 1"
    by (simp add: UseSyncExternalStoreExample_def runtime_defs Let_def split: case_splits)
  have 4: "length (filter state_hook (hooks_called (render UseEffectExample e4 f4))) \<le> 1"
    by (simp add: UseEffectExample_def runtime_defs Let_def split: case_splits)
  have 5: "length (filter state_hook (hooks_called (render UseLayoutEffectExample e5 f5))) \<le> 1"
    by (simp add: UseLayoutEffectExample_def runtime_defs Let_def split: case_splits)
  have 6: "length (filter state_hook (hooks_called (render UseInsertionEffectExample e6 f6))) \<le> 1"
    by (simp add: UseInsertionEffectExample_def runtime_defs Let_def split: case_splits)
  have 7: "length (filter state_hook (hooks_called (render UseRefExample e7 f7))) \<le> 1"
    by (simp add: UseRefExample_def runtime_defs Let_def split: case_splits)
  have 8: "length (filter state_hook (hooks_called (render UseMemoExample e8 f8))) \<le> 1"
    by (simp add: UseMemoExample_def expensiveComputation_def runtime_defs Let_def
        split: case_splits)
  have 9: "length (filter state_hook (hooks_called (render (ChildComponent props) e9 f9))) \<le> 1"
    by (simp add: ChildComponent_def runtime_defs Let_def split: case_splits)
  have 10: "length (filter state_hook (hooks_called (render UseCallbackExample e10 f10))) \<le> 1"
    by (simp add: UseCallbackExample_def runtime_defs Let_def split: case_splits)
  have 11: "length (filter state_hook (hooks_called (render UseContextExample e11 f11))) \<le> 1"
    by (simp add: UseContextExample_def runtime_defs Let_def split: case_splits)
  have 12: "length (filter state_hook (hooks_called (render ChildComponentContext e12 f12))) \<le> 1"
    by (simp add: ChildComponentContext_def runtime_defs Let_def split: case_splits)
  have 13: "length (filter state_hook (hooks_called (render UseTransitionExample e13 f13))) \<le> 1"
    by (simp add: UseTransitionExample_def runtime_defs Let_def split: case_splits)
  have 14: "length (filter state_hook (hooks_called (render UseDeferredValueExample e14 f14))) \<le> 1"
    by (simp add: UseDeferredValueExample_def runtime_defs Let_def split: case_splits)
  have 15: "length (filter state_hook (hooks_called (render UseDebugValueExample e15 f15))) \<le> 1"
    by (simp add: UseDebugValueExample_def runtime_defs Let_def split: case_splits)
  have 16: "length (filter state_hook (hooks_called (render UseIdExample e16 f16))) \<le> 1"
    by (simp add: UseIdExample_def runtime_defs Let_def split: case_splits)
  have 17: "length (filter state_hook (hooks_called (render MyComponent e17 f17))) \<le> 1"
    by (simp add: MyComponent_def fetchDataFromAPI_def runtime_defs Let_def split: case_splits)
  from 1 2 3 4 5 6 7 8 9 10 11 12 13 14 15 16 17 show ?thesis
    by blast
qed

subsection \<open>The click handlers of the first two examples\<close>

text \<open>
  C9. The element the useState example and the useReducer example return is a
  \<open>button\<close> whose only attribute is the click handler, under the name \<open>onclick\<close>;
  the element has no attribute \<open>onClick\<close>. This holds on mount and on every render
  from a stored state.
\<close>

theorem click_handler_is_under_lowercase_onclick:
  "root_tag (returned (render UseStateExample e None)) = Some ''button'' \<and>
   root_attrs (returned (render UseStateExample e None)) =
     [(''onclick'', Handler (\<lambda>ev. [SetSlot 0 (\<lambda>_. js_add (Finite 0) (Finite 1))]))] \<and>
   root_tag (returned (render UseStateExample e (Some [StateSlot c]))) = Some ''button'' \<and>
   root_attrs (returned (render UseStateExample e (Some [StateSlot c]))) =
     [(''onclick'', Handler (\<lambda>ev. [SetSlot 0 (\<lambda>_. js_add c (Finite 1))]))] \<and>
   root_tag (returned (render UseReducerExample e None)) = Some ''button'' \<and>
   root_attrs (returned (render UseReducerExample e None)) =
     [(''onclick'', Handler (\<lambda>ev. [SetSlot 0 (\<lambda>s. reducer s \<lparr>type = Str ''increment''\<rparr>)]))] \<and>
   root_tag (returned (render UseReducerExample e (Some [StateSlot st]))) = Some ''button'' \<and>
   root_attrs (returned (render UseReducerExample e (Some [StateSlot st]))) =
     [(''onclick'', Handler (\<lambda>ev. [SetSlot 0 (\<lambda>s. reducer s \<lparr>type = Str ''increment''\<rparr>)]))] \<and>
   ''onClick'' \<notin> fst ` set (root_attrs (returned (render UseStateExample e None))) \<and>
   ''onClick'' \<notin> fst ` set (root_attrs (returned (render UseStateExample e (Some [StateSlot c])))) \<and>
   ''onClick'' \<notin> fst ` set (root_attrs (returned (render UseReducerExample e None))) \<and>
   ''onClick'' \<notin> fst ` set (root_attrs (returned (render UseReducerExample e (Some [StateSlot st]))))"
  by (simp add: UseStateExample_def UseReducerExample_def runtime_defs set_state_def
      dispatch_to_def)

subsection \<open>The useMemo example\<close>

text \<open>
  The two renders of the useMemo example: on mount, and from slots in which the cached
  value is the double of the dependency it was computed from. Every reachable list of
  slots has that shape, with a count between \<open>0\<close> and \<open>2^53\<close>, and every count from
  \<open>1\<close> to \<open>2^53\<close> is reached by clicks.
\<close>

lemma memo_render_mount:
  "render UseMemoExample e None =
     (Inr (Tag ''div'' []
          [Tag ''h1'' [] [Text ''useMemo Example''],
           Tag ''p'' [] [Text ''Computed Value: '', Expr (Num (Finite 0))],
           Tag ''button''
             [(''onClick'', Handler (\<lambda>ev. [SetSlot 0 (\<lambda>_. Finite 1)]))]
             [Text ''Increment'']]),
      \<lparr>prev = None, slots = [StateSlot (Finite 0), MemoSlot (Finite 0) [Finite 0]],
       trace = [H_useState, H_useMemo], effects = [],
       acts = [ConsoleLog ''Computing...''], env = e, used = []\<rparr>)"
  by (simp add: UseMemoExample_def expensiveComputation_def runtime_defs set_state_def
      to_double_exact)

lemma memo_render_update:
  "render UseMemoExample e
     (Some [StateSlot (Finite c), MemoSlot (js_mul (Finite d) (Finite 2)) [Finite d]]) =
     (Inr (Tag ''div'' []
          [Tag ''h1'' [] [Text ''useMemo Example''],
           Tag ''p'' [] [Text ''Computed Value: '', Expr (Num (js_mul (Finite c) (Finite 2)))],
           Tag ''button''
             [(''onClick'', Handler (\<lambda>ev. [SetSlot 0 (\<lambda>_. js_add (Finite c) (Finite 1))]))]
             [Text ''Increment'']]),
      \<lparr>prev = Some [],
       slots = [StateSlot (Finite c), MemoSlot (js_mul (Finite c) (Finite 2)) [Finite c]],
       trace = [H_useState, H_useMemo], effects = [],
       acts = (if d = c then [] else [ConsoleLog ''Computing...'']), env = e, used = []\<rparr>)"
  by (simp add: UseMemoExample_def expensiveComputation_def runtime_defs set_state_def
      del: js_add.simps js_mul.simps)

lemma reachable_memo_shape:
  "reachable UseMemoExample f \<Longrightarrow>
   \<exists>c d. f = [StateSlot (Finite c), MemoSlot (js_mul (Finite d) (Finite 2)) [Finite d]] \<and>
     0 \<le> c \<and> c \<le> 2 ^ 53"
proof (induction rule: reachable.induct)
  case (mounted el r)
  then have "slots r = [StateSlot (Finite 0), MemoSlot (Finite 0) [Finite 0]]"
    by (auto simp: memo_render_mount)
  moreover have "js_mul (Finite 0) (Finite 2) = Finite 0"
    using js_mul_two [of 0] by simp
  ultimately have "slots r = [StateSlot (Finite 0), MemoSlot (js_mul (Finite 0) (Finite 2)) [Finite 0]] \<and>
     (0::int) \<le> 0 \<and> (0::int) \<le> 2 ^ 53"
    by simp
  then show ?case by blast
next
  case (handled f el r els h ev)
  then obtain c d where f: "f = [StateSlot (Finite c), MemoSlot (js_mul (Finite d) (Finite 2)) [Finite d]]"
    and c: "0 \<le> c" "c \<le> 2 ^ 53" by blast
  from handled.hyps(2) have el: "el = Tag ''div'' []
          [Tag ''h1'' [] [Text ''useMemo Example''],
           Tag ''p'' [] [Text ''Computed Value: '', Expr (Num (js_mul (Finite c) (Finite 2)))],
           Tag ''button''
             [(''onClick'', Handler (\<lambda>ev. [SetSlot 0 (\<lambda>_. js_add (Finite c) (Finite 1))]))]
             [Text ''Increment'']]"
    and r: "slots r = [StateSlot (Finite c), MemoSlot (js_mul (Finite c) (Finite 2)) [Finite c]]"
    unfolding f memo_render_update by auto
  from handled.hyps(3) have els: "els = [el]"
    by (auto simp: el ebind_def)
  from handled.hyps(4) have h: "h = (\<lambda>ev. [SetSlot 0 (\<lambda>_. js_add (Finite c) (Finite 1))])"
    by (simp add: els el event_handlers_def event_props_def)
  have s: "apply_acts (h ev) (slots r) =
      [StateSlot (Finite (if c < 2 ^ 53 then c + 1 else c)),
       MemoSlot (js_mul (Finite c) (Finite 2)) [Finite c]]"
    by (simp add: h r apply_acts_def js_add_one_bounded [OF c] del: js_add.simps js_mul.simps)
  have "0 \<le> (if c < 2 ^ 53 then c + 1 else c) \<and> (if c < 2 ^ 53 then c + 1 else c) \<le> 2 ^ 53"
    using c by simp
  with s show ?case by blast
qed

lemma memo_click_step:
  assumes "reachable UseMemoExample
     [StateSlot (Finite c), MemoSlot (js_mul (Finite d) (Finite 2)) [Finite d]]"
  shows "reachable UseMemoExample
     [StateSlot (js_add (Finite c) (Finite 1)), MemoSlot (js_mul (Finite c) (Finite 2)) [Finite c]]"
  using reachable.handled [OF assms memo_render_update [of "[]" c d],
      of _ "\<lambda>ev. [SetSlot 0 (\<lambda>_. js_add (Finite c) (Finite 1))]" ev]
  by (simp add: ebind_def event_handlers_def event_props_def apply_acts_def
      del: js_add.simps js_mul.simps)

lemma reachable_memo_counts:
  "int n < 2 ^ 53 \<Longrightarrow>
   reachable UseMemoExample
     [StateSlot (Finite (int n + 1)), MemoSlot (js_mul (Finite (int n)) (Finite 2)) [Finite (int n)]]"
proof (induction n)
  case 0
  have "js_mul (Finite 0) (Finite 2) = Finite 0"
    using js_mul_two [of 0] by simp
  then have "reachable UseMemoExample
     [StateSlot (Finite 0), MemoSlot (js_mul (Finite 0) (Finite 2)) [Finite 0]]"
    using reachable.mounted [OF memo_render_mount [of "[]"]] by (simp del: js_mul.simps)
  from memo_click_step [OF this] show ?case
    using js_add_one [of 0] by (simp del: js_add.simps js_mul.simps)
next
  case (Suc n)
  then have b: "int n < 2 ^ 53" and b': "\<bar>(int n + 1) + 1\<bar> \<le> 2 ^ 53"
    by simp_all
  from memo_click_step [OF Suc.IH [OF b]] show ?case
    using js_add_one [OF b'] by (simp add: add.commute del: js_add.simps js_mul.simps)
qed

text \<open>
  For every value of the count, C10 does not hold: the count \<open>2^53\<close> is reached, and
  there the handler of the Increment button stores \<open>2^53 + 1\<close> rounded to a double,
  which is \<open>2^53\<close> again: the count stays where it is.
\<close>

theorem increment_is_stuck_at_the_limit:
  "reachable UseMemoExample
     [StateSlot (Finite 9007199254740992),
      MemoSlot (Finite 18014398509481982) [Finite 9007199254740991]] \<and>
   click \<lparr>target_value = ''''\<rparr>
     (render UseMemoExample []
        (Some [StateSlot (Finite 9007199254740992),
               MemoSlot (Finite 18014398509481982) [Finite 9007199254740991]])) =
     [StateSlot (Finite 9007199254740992),
      MemoSlot (Finite 18014398509481984) [Finite 9007199254740992]] \<and>
   Finite 9007199254740992 \<noteq> Finite (9007199254740992 + 1)"
proof -
  have m: "js_mul (Finite 9007199254740991) (Finite 2) = Finite 18014398509481982"
    using js_mul_two [of 9007199254740991] by simp
  have m': "js_mul (Finite 9007199254740992) (Finite 2) = Finite 18014398509481984"
    using js_mul_two [of 9007199254740992] by simp
  have r: "reachable UseMemoExample
     [StateSlot (Finite 9007199254740992),
      MemoSlot (Finite 18014398509481982) [Finite 9007199254740991]]"
    using reachable_memo_counts [of 9007199254740991] by (simp add: m del: js_mul.simps)
  have c: "click \<lparr>target_value = ''''\<rparr>
     (render UseMemoExample []
        (Some [StateSlot (Finite 9007199254740992),
               MemoSlot (Finite 18014398509481982) [Finite 9007199254740991]])) =
     [StateSlot (Finite 9007199254740992),
      MemoSlot (Finite 18014398509481984) [Finite 9007199254740992]]"
    using memo_render_update [of "[]" 9007199254740992 9007199254740991]
    by (simp add: m m' click_def apply_acts_def js_add_one_at_limit del: js_add.simps js_mul.simps)
  from r c show ?thesis by simp
qed

text \<open>
  C10, with the limit. On mount the state \<open>count\<close> is \<open>0\<close> and the render shows
  \<open>2 * 0\<close>. In every reachable state of the useMemo example the state \<open>count\<close> is an
  integer \<open>c\<close> from \<open>0\<close> to \<open>2^53\<close>; the render shows \<open>2 * c\<close> as the computed
  value, which is what \<open>expensiveComputation(c)\<close> returns; and a click on the
  Increment button sets the state to \<open>c + 1\<close> while \<open>c\<close> is below \<open>2^53\<close>, and
  leaves it at \<open>2^53\<close> from there.
\<close>

theorem memo_value_is_twice_count:
  assumes "reachable UseMemoExample f"
  shows "returned (render UseMemoExample e None) =
       Inr (Tag ''div'' []
          [Tag ''h1'' [] [Text ''useMemo Example''],
           Tag ''p'' [] [Text ''Computed Value: '', Expr (Num (Finite (2 * 0)))],
           Tag ''button''
             [(''onClick'', Handler (\<lambda>ev. [SetSlot 0 (\<lambda>_. Finite (0 + 1))]))]
             [Text ''Increment'']]) \<and>
   (\<exists>c m.
     f = [StateSlot (Finite c), m] \<and> 0 \<le> c \<and> c \<le> 2 ^ 53 \<and>
     returned (render UseMemoExample e (Some f)) =
       Inr (Tag ''div'' []
          [Tag ''h1'' [] [Text ''useMemo Example''],
           Tag ''p'' [] [Text ''Computed Value: '', Expr (Num (Finite (2 * c)))],
           Tag ''button''
             [(''onClick'',
               Handler (\<lambda>ev. [SetSlot 0 (\<lambda>_. Finite (if c < 2 ^ 53 then c + 1 else c))]))]
             [Text ''Increment'']]) \<and>
     fst (expensiveComputation (Finite c) r) = Inr (Finite (2 * c)) \<and>
     click ev (render UseMemoExample e (Some f)) =
       [StateSlot (Finite (if c < 2 ^ 53 then c + 1 else c)),
        MemoSlot (Finite (2 * c)) [Finite c]])"
proof -
  from assms obtain c d
    where f: "f = [StateSlot (Finite c), MemoSlot (js_mul (Finite d) (Finite 2)) [Finite d]]"
      and c: "0 \<le> c" "c \<le> 2 ^ 53"
    using reachable_memo_shape by blast
  note two = js_mul_two [OF c]
  note one = js_add_one_bounded [OF c]
  have x: "fst (expensiveComputation (Finite c) r) = Inr (Finite (2 * c))"
    by (simp add: expensiveComputation_def runtime_defs two del: js_mul.simps)
  have mount: "returned (render UseMemoExample e None) =
       Inr (Tag ''div'' []
          [Tag ''h1'' [] [Text ''useMemo Example''],
           Tag ''p'' [] [Text ''Computed Value: '', Expr (Num (Finite (2 * 0)))],
           Tag ''button''
             [(''onClick'', Handler (\<lambda>ev. [SetSlot 0 (\<lambda>_. Finite (0 + 1))]))]
             [Text ''Increment'']])"
    by (simp add: memo_render_mount returned_def)
  have upd: "f = [StateSlot (Finite c), MemoSlot (js_mul (Finite d) (Finite 2)) [Finite d]] \<and>
     0 \<le> c \<and> c \<le> 2 ^ 53 \<and>
     returned (render UseMemoExample e (Some f)) =
       Inr (Tag ''div'' []
          [Tag ''h1'' [] [Text ''useMemo Example''],
           Tag ''p'' [] [Text ''Computed Value: '', Expr (Num (Finite (2 * c)))],
           Tag ''button''
             [(''onClick'',
               Handler (\<lambda>ev. [SetSlot 0 (\<lambda>_. Finite (if c < 2 ^ 53 then c + 1 else c))]))]
             [Text ''Increment'']]) \<and>
     fst (expensiveComputation (Finite c) r) = Inr (Finite (2 * c)) \<and>
     click ev (render UseMemoExample e (Some f)) =
       [StateSlot (Finite (if c < 2 ^ 53 then c + 1 else c)),
        MemoSlot (Finite (2 * c)) [Finite c]]"
    using c x
    by (simp add: f memo_render_update returned_def click_def apply_acts_def two one
        del: js_add.simps js_mul.simps)
  from mount upd show ?thesis by blast
qed

theorem memo_value_is_twice_count_witness:
  "reachable UseMemoExample [StateSlot (Finite 1), MemoSlot (Finite 0) [Finite 0]] \<and>
   returned (render UseMemoExample [] (Some [StateSlot (Finite 1), MemoSlot (Finite 0) [Finite 0]])) =
       Inr (Tag ''div'' []
          [Tag ''h1'' [] [Text ''useMemo Example''],
           Tag ''p'' [] [Text ''Computed Value: '', Expr (Num (Finite 2))],
           Tag ''button'' [(''onClick'', Handler (\<lambda>ev. [SetSlot 0 (\<lambda>_. Finite 2)]))]
             [Text ''Increment'']]) \<and>
   click \<lparr>target_value = ''''\<rparr>
     (render UseMemoExample [] (Some [StateSlot (Finite 1), MemoSlot (Finite 0) [Finite 0]])) =
       [StateSlot (Finite 2), MemoSlot (Finite 2) [Finite 1]]"
proof -
  have "js_mul (Finite 0) (Finite 2) = Finite 0"
    using js_mul_two [of 0] by simp
  then have r: "reachable UseMemoExample [StateSlot (Finite 1), MemoSlot (Finite 0) [Finite 0]]"
    using reachable_memo_counts [of 0] by (simp del: js_mul.simps)
  from memo_value_is_twice_count [OF r, of "[]" _ "\<lparr>target_value = ''''\<rparr>"] r show ?thesis
    by auto
qed

end
